theory Spec2Isabelle
  imports Complex_Main "HOL-Library.AList" "HOL-Library.Word"
begin

section \<open>The verification route (API route template)\<close>

subsection \<open>Values delivered by \<^verbatim>\<open>request.json()\<close>\<close>

text \<open>
  The handler destructures whatever \<^verbatim>\<open>request.json()\<close> returns, so the two fields are
  arbitrary parsed JSON values, not only strings. A string is its sequence of characters.
  A number is the parsed value, a rational; the two zeros are one value here, both falsy
  (a literal too large for a double parses to Infinity, which the handler treats as it
  treats any other non-zero number). An object is its list of own properties; \<open>map_of\<close>
  reads a property, so a key occurs once for all purposes. A missing property is
  \<^verbatim>\<open>undefined\<close>, modelled as \<open>None\<close>.
\<close>

datatype json =
    JNull
  | JBool bool
  | JNum rat
  | JStr string
  | JArr "json list"
  | JObj "(string \<times> json) list"

text \<open>JavaScript's ToBoolean, as used by \<^verbatim>\<open>if (token)\<close> and \<^verbatim>\<open>if (!password)\<close>.\<close>

fun truthy :: "json option \<Rightarrow> bool" where
  "truthy None = False"
| "truthy (Some JNull) = False"
| "truthy (Some (JBool b)) = b"
| "truthy (Some (JNum n)) = (n \<noteq> 0)"
| "truthy (Some (JStr s)) = (s \<noteq> [])"
| "truthy (Some (JArr xs)) = True"
| "truthy (Some (JObj kvs)) = True"

text \<open>
  Reading a property of a non-null value: only an object can own \<^verbatim>\<open>password\<close> or
  \<^verbatim>\<open>token\<close>; on a boolean, number, string or array the read gives \<^verbatim>\<open>undefined\<close>.
\<close>

fun get_property :: "json \<Rightarrow> string \<Rightarrow> json option" where
  "get_property (JObj kvs) name = map_of kvs name"
| "get_property v name = None"

datatype exn = SyntaxError | TypeError

subsection \<open>What the runtime supplies\<close>

text \<open>
  \<^item> \<open>sha256_hex\<close>: \<^verbatim>\<open>createHash('sha256').update(s).digest('hex')\<close> of Node's crypto module;
  \<^item> \<open>random_byte\<close>: the bytes the system's random generator hands out to this call, in order;
  \<^item> \<open>date_now\<close>: the value of the \<open>k\<close>-th evaluation of \<^verbatim>\<open>Date.now()\<close> in this call
    (epoch milliseconds: integers far below \<open>2^53\<close>, so adding 24 hours is exact);
  \<^item> \<open>APP_PASSWORD\<close>: the environment variable, \<open>None\<close> when unset.
\<close>

record environment =
  sha256_hex :: "string \<Rightarrow> string"
  random_byte :: "nat \<Rightarrow> 8 word"
  date_now :: "nat \<Rightarrow> int"
  APP_PASSWORD :: "string option"

subsection \<open>Token store\<close>

text \<open>
  \<^verbatim>\<open>new Map<string, { expiresAt: number; createdAt: number }>()\<close>: an insertion-ordered
  list of entries. \<^verbatim>\<open>get\<close> is \<open>map_of\<close>, \<^verbatim>\<open>set\<close> is \<open>AList.update\<close> (replace in place, or
  append), \<^verbatim>\<open>delete\<close> is \<open>AList.delete\<close>. A JavaScript Map holds a key once:
  \<open>distinct (map fst tokenStore)\<close>.
\<close>

record token_data =
  expiresAt :: int
  createdAt :: int

type_synonym token_store = "(string \<times> token_data) list"

definition tokenStore_init :: token_store where
  "tokenStore_init = []"

subsection \<open>Periodic sweep\<close>

text \<open>
  The callback of \<^verbatim>\<open>setInterval\<close>: one reading of the clock, then a loop over the entries
  that deletes each expired one. The loop deletes only the entry it is visiting, so it
  visits every entry present at its start exactly once.
\<close>

definition sweep :: "int \<Rightarrow> token_store \<Rightarrow> token_store" where
  "sweep now tokenStore =
     fold (\<lambda>(tokenHash, data) store.
             if expiresAt data < now then AList.delete tokenHash store else store)
          tokenStore tokenStore"

text \<open>The keys of the entries that a sweep at time \<open>now\<close> finds expired.\<close>

definition expired_keys :: "int \<Rightarrow> token_store \<Rightarrow> string set" where
  "expired_keys now es = set (map fst (filter (\<lambda>e. expiresAt (snd e) < now) es))"

subsection \<open>Token generation and hashing\<close>

definition hex_digits :: string where
  "hex_digits = ''0123456789abcdef''"

text \<open>\<^verbatim>\<open>Buffer.toString('hex')\<close>: two lower-case digits for each byte, high nibble first.\<close>

definition hex_byte :: "8 word \<Rightarrow> string" where
  "hex_byte b = [hex_digits ! (unat b div 16), hex_digits ! (unat b mod 16)]"

definition to_hex :: "8 word list \<Rightarrow> string" where
  "to_hex bs = concat (map hex_byte bs)"

definition randomBytes :: "environment \<Rightarrow> nat \<Rightarrow> 8 word list" where
  "randomBytes env n = map (random_byte env) [0..<n]"

definition generateToken :: "environment \<Rightarrow> string" where
  "generateToken env = to_hex (randomBytes env 32)"

text \<open>
  \<^verbatim>\<open>hash.update\<close> accepts a string (or a binary buffer, which JSON cannot produce) and
  throws a TypeError on anything else.
\<close>

fun createTokenHash :: "environment \<Rightarrow> json option \<Rightarrow> exn + string" where
  "createTokenHash env (Some (JStr s)) = Inr (sha256_hex env s)"
| "createTokenHash env v = Inl TypeError"

subsection \<open>The POST handler\<close>

text \<open>
  The response: \<open>Token_issued t\<close> is \<^verbatim>\<open>{success: true, token: t}\<close>, \<open>Token_valid\<close> is
  \<^verbatim>\<open>{success: true, valid: true}\<close>, \<open>Failed e\<close> is \<^verbatim>\<open>{success: false, error: e}\<close>.
  \<^verbatim>\<open>NextResponse.json\<close> without a status answers 200.
\<close>

datatype reply = Token_issued string | Token_valid | Failed string

record response =
  status :: nat
  content :: reply

definition expiresIn :: int where
  "expiresIn = 24 * 60 * 60 * 1000"

definition correctPassword :: "environment \<Rightarrow> string" where
  "correctPassword env =
     (case APP_PASSWORD env of
        None \<Rightarrow> ''demo123''
      | Some p \<Rightarrow> if p \<noteq> [] then p else ''demo123'')"

text \<open>
  The body of the \<^verbatim>\<open>try\<close> block. The request is \<open>None\<close> when its body is not JSON
  (\<^verbatim>\<open>request.json()\<close> rejects); destructuring \<^verbatim>\<open>null\<close> throws. The result is the exception
  or the response, together with the store as the block leaves it.
\<close>

definition POST_try ::
  "environment \<Rightarrow> json option \<Rightarrow> token_store \<Rightarrow> (exn + response) \<times> token_store" where
  "POST_try env request tokenStore =
     (case request of
        None \<Rightarrow> (Inl SyntaxError, tokenStore)
      | Some body \<Rightarrow>
          if body = JNull then (Inl TypeError, tokenStore)
          else
            let password = get_property body ''password'';
                token = get_property body ''token''
            in
            if truthy token then
              (case createTokenHash env token of
                 Inl e \<Rightarrow> (Inl e, tokenStore)
               | Inr tokenHash \<Rightarrow>
                   (case map_of tokenStore tokenHash of
                      None \<Rightarrow>
                        (Inr \<lparr>status = 401, content = Failed ''Invalid token''\<rparr>, tokenStore)
                    | Some tokenData \<Rightarrow>
                        if expiresAt tokenData < date_now env 0 then
                          (Inr \<lparr>status = 401, content = Failed ''Token expired''\<rparr>,
                           AList.delete tokenHash tokenStore)
                        else
                          (Inr \<lparr>status = 200, content = Token_valid\<rparr>,
                           AList.update tokenHash
                             (tokenData\<lparr>expiresAt := date_now env 1 + expiresIn\<rparr>)
                             tokenStore)))
            else if \<not> truthy password then
              (Inr \<lparr>status = 400, content = Failed ''Password is required''\<rparr>, tokenStore)
            else if password \<noteq> Some (JStr (correctPassword env)) then
              (Inr \<lparr>status = 401, content = Failed ''Incorrect password''\<rparr>, tokenStore)
            else
              let token = generateToken env in
              (case createTokenHash env (Some (JStr token)) of
                 Inl e \<Rightarrow> (Inl e, tokenStore)
               | Inr tokenHash \<Rightarrow>
                   (Inr \<lparr>status = 200, content = Token_issued token\<rparr>,
                    AList.update tokenHash
                      \<lparr>expiresAt = date_now env 0 + expiresIn, createdAt = date_now env 1\<rparr>
                      tokenStore)))"

text \<open>The handler: the \<^verbatim>\<open>catch\<close> clause answers every exception alike.\<close>

definition POST ::
  "environment \<Rightarrow> json option \<Rightarrow> token_store \<Rightarrow> response \<times> token_store" where
  "POST env request tokenStore =
     (case POST_try env request tokenStore of
        (Inl e, store) \<Rightarrow> (\<lparr>status = 400, content = Failed ''Invalid request''\<rparr>, store)
      | (Inr r, store) \<Rightarrow> (r, store))"

subsection \<open>The invariant of the store\<close>

text \<open>
  The tokens a response hands to its caller, and the property that every key of the store
  is the digest of a token that was handed out.
\<close>

definition issued_tokens :: "response \<Rightarrow> string set" where
  "issued_tokens r = (case content r of Token_issued t \<Rightarrow> {t} | _ \<Rightarrow> {})"

definition keys_are_digests :: "(string \<Rightarrow> string) \<Rightarrow> string set \<Rightarrow> token_store \<Rightarrow> bool" where
  "keys_are_digests sha issued tokenStore \<longleftrightarrow> fst ` set tokenStore \<subseteq> sha ` issued"

text \<open>
  The states of the route module: the store starts empty, and then requests and sweeps
  arrive in any order, each request with its own clock readings and random bytes, all
  with the same hash function. The second component collects the tokens handed out.
\<close>

inductive reachable :: "(string \<Rightarrow> string) \<Rightarrow> token_store \<Rightarrow> string set \<Rightarrow> bool"
  for sha :: "string \<Rightarrow> string" where
  start: "reachable sha tokenStore_init {}"
| request:
    "reachable sha tokenStore issued \<Longrightarrow> sha256_hex env = sha \<Longrightarrow>
     POST env req tokenStore = (r, tokenStore') \<Longrightarrow>
     reachable sha tokenStore' (issued \<union> issued_tokens r)"
| sweeping:
    "reachable sha tokenStore issued \<Longrightarrow> reachable sha (sweep now tokenStore) issued"

section \<open>The client session manager (PasswordProtectProvider)\<close>

text \<open>
  Of the configuration, the fields that \<^verbatim>\<open>authenticate\<close> reads. A callback is user code;
  the model records whether one is configured and logs each invocation.
\<close>

record config =
  password :: "string option"
  storageKey :: "string option"
  persistAuth :: "bool option"
  onSuccess :: bool
  onError :: bool

datatype callback = OnSuccess | OnError

record session =
  isAuthenticated :: bool
  localStorage :: "string \<rightharpoonup> string"
  invoked :: "callback list"

text \<open>\<^verbatim>\<open>config.storageKey || 'password-protect-auth'\<close> and \<^verbatim>\<open>config.persistAuth !== false\<close>.\<close>

definition storageKey_of :: "config \<Rightarrow> string" where
  "storageKey_of cfg =
     (case storageKey cfg of
        None \<Rightarrow> ''password-protect-auth''
      | Some k \<Rightarrow> if k \<noteq> [] then k else ''password-protect-auth'')"

definition persistAuth_of :: "config \<Rightarrow> bool" where
  "persistAuth_of cfg \<longleftrightarrow> persistAuth cfg \<noteq> Some False"

text \<open>\<^verbatim>\<open>config.onSuccess?.()\<close>: the call happens when a callback is configured.\<close>

definition invoke :: "bool \<Rightarrow> callback \<Rightarrow> session \<Rightarrow> session" where
  "invoke configured c s = (if configured then s\<lparr>invoked := invoked s @ [c]\<rparr> else s)"

text \<open>
  What the \<^verbatim>\<open>fetch\<close> of remote mode brings back: the reply of the route above, or a
  failure (network error, or a body that is not JSON), which lands in the \<^verbatim>\<open>catch\<close>.
\<close>

datatype fetched = Fetch_failed | Fetch_data reply

text \<open>
  \<^verbatim>\<open>authenticate\<close>, with \<open>window\<close> the outcome of \<^verbatim>\<open>typeof window !== 'undefined'\<close>.
  The result is the returned boolean and the session after the call.
\<close>

definition authenticate ::
  "config \<Rightarrow> bool \<Rightarrow> fetched \<Rightarrow> string \<Rightarrow> session \<Rightarrow> bool \<times> session" where
  "authenticate cfg window reply pw s =
     (if (case password cfg of None \<Rightarrow> False | Some secret \<Rightarrow> secret \<noteq> []) then
        if Some pw = password cfg then
          (True,
           invoke (onSuccess cfg) OnSuccess
             (s\<lparr>localStorage :=
                   (if persistAuth_of cfg \<and> window
                    then (localStorage s)(storageKey_of cfg \<mapsto> ''authenticated'')
                    else localStorage s),
                 isAuthenticated := True\<rparr>))
        else (False, invoke (onError cfg) OnError s)
      else
        (case reply of
           Fetch_failed \<Rightarrow> (False, invoke (onError cfg) OnError s)
         | Fetch_data data \<Rightarrow>
             (case data of
                Token_issued token \<Rightarrow>
                  if token \<noteq> [] then
                    (True,
                     invoke (onSuccess cfg) OnSuccess
                       (s\<lparr>localStorage :=
                             (if persistAuth_of cfg \<and> window
                              then (localStorage s)(storageKey_of cfg \<mapsto> token)
                              else localStorage s),
                           isAuthenticated := True\<rparr>))
                  else (False, invoke (onError cfg) OnError s)
              | _ \<Rightarrow> (False, invoke (onError cfg) OnError s))))"

section \<open>Sample inputs\<close>

text \<open>
  A concrete environment for the examples below: the clock reads 1000 and then 1001,
  the random bytes are 250, 1, 8, 15, ... and a prefix stands in for the hash function.
\<close>

definition demo_env :: environment where
  "demo_env =
     \<lparr>sha256_hex = (\<lambda>s. ''sha256:'' @ s),
      random_byte = (\<lambda>k. of_nat (7 * k + 250)),
      date_now = (\<lambda>k. 1000 + int k),
      APP_PASSWORD = None\<rparr>"

text \<open>A store with one live record (token \<open>''live''\<close>) and one expired at time 1000.\<close>

definition demo_store :: token_store where
  "demo_store =
     [(''sha256:live'', \<lparr>expiresAt = 5000, createdAt = 0\<rparr>),
      (''sha256:old'', \<lparr>expiresAt = 500, createdAt = 0\<rparr>)]"

text \<open>A request that carries a wrong password together with the token of the live record.\<close>

definition both_fields :: json where
  "both_fields = JObj [(''password'', JStr ''wrong''), (''token'', JStr ''live'')]"

text \<open>A request with the default password and nothing else.\<close>

definition demo_issue :: json where
  "demo_issue = JObj [(''password'', JStr ''demo123'')]"

definition demo_config :: config where
  "demo_config =
     \<lparr>password = Some ''abc'', storageKey = None, persistAuth = None,
      onSuccess = True, onError = True\<rparr>"

definition demo_session :: session where
  "demo_session = \<lparr>isAuthenticated = False, localStorage = Map.empty, invoked = []\<rparr>"

section \<open>Properties of the route\<close>

subsection \<open>Tokens\<close>

lemma length_hex_byte: "length (hex_byte b) = 2"
  by (simp add: hex_byte_def)

lemma length_to_hex: "length (to_hex bs) = 2 * length bs"
  by (induction bs) (simp_all add: to_hex_def length_hex_byte)

lemma hex_digit_in: "n < 16 \<Longrightarrow> hex_digits ! n \<in> set hex_digits"
  by (rule nth_mem) (simp add: hex_digits_def)

lemma set_hex_byte: "set (hex_byte b) \<subseteq> set hex_digits"
proof -
  have "unat b < 2 ^ LENGTH(8)" by (rule unsigned_less)
  then have "unat b < 256" by simp
  then have "unat b div 16 < 16" by simp
  moreover have "unat b mod 16 < 16" by simp
  ultimately show ?thesis
    unfolding hex_byte_def using hex_digit_in by simp
qed

lemma set_to_hex: "set (to_hex bs) \<subseteq> set hex_digits"
  using set_hex_byte by (auto simp: to_hex_def)

lemma length_randomBytes: "length (randomBytes env n) = n"
  by (simp add: randomBytes_def)

lemma generateToken_shape:
  "length (generateToken env) = 64 \<and> set (generateToken env) \<subseteq> set ''0123456789abcdef''"
  using set_to_hex [of "randomBytes env 32"]
  by (simp add: generateToken_def length_to_hex length_randomBytes hex_digits_def)

lemma generateToken_nonempty: "generateToken env \<noteq> []"
  using generateToken_shape [of env] by auto

lemma generateToken_demo:
  "generateToken demo_env = ''fa01080f161d242b323940474e555c636a71787f868d949ba2a9b0b7bec5ccd3''"
  by code_simp

subsection \<open>The password branch\<close>

lemma correctPassword_nonempty: "correctPassword env \<noteq> []"
  by (simp add: correctPassword_def split: option.split)

lemma not_null_if_property: "get_property body name = Some v \<Longrightarrow> body \<noteq> JNull"
  by (cases body) simp_all

lemma POST_issue:
  assumes pw: "get_property body ''password'' = Some (JStr (correctPassword env))"
      and tk: "\<not> truthy (get_property body ''token'')"
  shows "POST env (Some body) tokenStore =
           (\<lparr>status = 200, content = Token_issued (generateToken env)\<rparr>,
            AList.update (sha256_hex env (generateToken env))
              \<lparr>expiresAt = date_now env 0 + expiresIn, createdAt = date_now env 1\<rparr>
              tokenStore)"
proof -
  have "body \<noteq> JNull" using pw by (rule not_null_if_property)
  moreover have "truthy (get_property body ''password'')"
    using pw correctPassword_nonempty by simp
  ultimately show ?thesis
    using pw tk by (simp add: POST_def POST_try_def Let_def)
qed



subsection \<open>Rejections of the password branch\<close>

lemma not_null_if_truthy: "truthy (get_property body name) \<Longrightarrow> body \<noteq> JNull"
  by (cases body) simp_all

lemma POST_wrong_password:
  assumes "truthy (get_property body ''password'')"
      and "get_property body ''password'' \<noteq> Some (JStr (correctPassword env))"
      and "\<not> truthy (get_property body ''token'')"
  shows "POST env (Some body) tokenStore =
           (\<lparr>status = 401, content = Failed ''Incorrect password''\<rparr>, tokenStore)"
proof -
  have "body \<noteq> JNull" using assms(1) by (rule not_null_if_truthy)
  then show ?thesis
    using assms by (simp add: POST_def POST_try_def Let_def)
qed

lemma POST_no_credentials:
  assumes "body \<noteq> JNull"
      and "\<not> truthy (get_property body ''password'')"
      and "\<not> truthy (get_property body ''token'')"
  shows "POST env (Some body) tokenStore =
           (\<lparr>status = 400, content = Failed ''Password is required''\<rparr>, tokenStore)"
  using assms by (simp add: POST_def POST_try_def Let_def)

text \<open>
  Claim C4, as stated, for every request with a truthy password field that differs from
  the secret: it fails when the request also carries a token, since the token is checked
  first. With the token of a live record the answer is 200 and the record's expiry moves.
\<close>

theorem wrong_password_with_valid_token_counterexample:
  "truthy (get_property both_fields ''password'')
   \<and> get_property both_fields ''password'' \<noteq> Some (JStr (correctPassword demo_env))
   \<and> POST demo_env (Some both_fields) demo_store =
        (\<lparr>status = 200, content = Token_valid\<rparr>,
         [(''sha256:live'', \<lparr>expiresAt = 86401001, createdAt = 0\<rparr>),
          (''sha256:old'', \<lparr>expiresAt = 500, createdAt = 0\<rparr>)])
   \<and> status (fst (POST demo_env (Some both_fields) demo_store)) \<noteq> 401
   \<and> snd (POST demo_env (Some both_fields) demo_store) \<noteq> demo_store"
  by (simp add: both_fields_def demo_env_def demo_store_def correctPassword_def
      POST_def POST_try_def Let_def expiresIn_def)

text \<open>
  Claim C4, amended. A request whose token field is absent or falsy and whose password
  field is truthy and differs from the configured secret is answered with status 401 and
  \<^verbatim>\<open>error: 'Incorrect password'\<close>, and the store after the call is the store before it.
\<close>

theorem wrong_password_rejected:
  assumes "truthy (get_property body ''password'')"
      and "get_property body ''password'' \<noteq> Some (JStr (correctPassword env))"
      and "\<not> truthy (get_property body ''token'')"
  shows "POST env (Some body) tokenStore =
           (\<lparr>status = 401, content = Failed ''Incorrect password''\<rparr>, tokenStore)
       \<and> snd (POST env (Some body) tokenStore) = tokenStore
       \<and> length (snd (POST env (Some body) tokenStore)) = length tokenStore"
  using assms by (simp add: POST_wrong_password)

theorem wrong_password_rejected_witness:
  "truthy (get_property (JObj [(''password'', JStr ''wrong'')]) ''password'')
   \<and> get_property (JObj [(''password'', JStr ''wrong'')]) ''password'' \<noteq>
        Some (JStr (correctPassword demo_env))
   \<and> \<not> truthy (get_property (JObj [(''password'', JStr ''wrong'')]) ''token'')
   \<and> POST demo_env (Some (JObj [(''password'', JStr ''wrong'')])) demo_store =
        (\<lparr>status = 401, content = Failed ''Incorrect password''\<rparr>, demo_store)"
proof -
  have a: "truthy (get_property (JObj [(''password'', JStr ''wrong'')]) ''password'')" by simp
  have b: "get_property (JObj [(''password'', JStr ''wrong'')]) ''password'' \<noteq>
        Some (JStr (correctPassword demo_env))"
    by (simp add: correctPassword_def demo_env_def)
  have c: "\<not> truthy (get_property (JObj [(''password'', JStr ''wrong'')]) ''token'')" by simp
  from wrong_password_rejected [OF a b c, of demo_store] a b c show ?thesis by simp
qed

text \<open>
  Claim C7. A body with neither a password nor a token property, such as \<^verbatim>\<open>{}\<close>, is
  answered with status 400 and \<^verbatim>\<open>error: 'Password is required'\<close>, the store untouched.
  This covers every JSON value that has properties to read; \<^verbatim>\<open>null\<close> has none, and
  destructuring it lands in the \<^verbatim>\<open>catch\<close> clause.
\<close>

theorem missing_fields_bad_request:
  assumes "body \<noteq> JNull"
      and "get_property body ''password'' = None"
      and "get_property body ''token'' = None"
  shows "POST env (Some body) tokenStore =
           (\<lparr>status = 400, content = Failed ''Password is required''\<rparr>, tokenStore)"
  using assms by (simp add: POST_no_credentials)

theorem missing_fields_bad_request_witness:
  "JObj [] \<noteq> JNull
   \<and> get_property (JObj []) ''password'' = None
   \<and> get_property (JObj []) ''token'' = None
   \<and> POST demo_env (Some (JObj [])) demo_store =
        (\<lparr>status = 400, content = Failed ''Password is required''\<rparr>, demo_store)"
proof -
  have a: "JObj [] \<noteq> JNull" by simp
  have b: "get_property (JObj []) ''password'' = None" by simp
  have c: "get_property (JObj []) ''token'' = None" by simp
  from missing_fields_bad_request [OF a b c, of demo_env demo_store] a b c show ?thesis by simp
qed

lemma POST_depends_on_fields:
  assumes "body \<noteq> JNull" "body' \<noteq> JNull"
      and "get_property body' ''password'' = get_property body ''password''"
      and "truthy (get_property body' ''token'') = truthy (get_property body ''token'')"
      and "truthy (get_property body ''token'') \<longrightarrow>
             get_property body' ''token'' = get_property body ''token''"
  shows "POST env (Some body') tokenStore = POST env (Some body) tokenStore"
  using assms by (simp add: POST_def POST_try_def Let_def)

text \<open>
  Claim C10. An empty string as token is falsy, so the request goes to the password
  branch: \<^verbatim>\<open>{"token": ""}\<close> alone is answered with status 400 and
  \<^verbatim>\<open>error: 'Password is required'\<close>, the store untouched, and any body with an empty
  token is handled exactly as a body without a token and with the same password field.
\<close>

theorem empty_token_is_absent:
  "POST env (Some (JObj [(''token'', JStr '''')])) tokenStore =
     (\<lparr>status = 400, content = Failed ''Password is required''\<rparr>, tokenStore)
   \<and> (\<forall>body body'.
         get_property body ''token'' = Some (JStr '''') \<and>
         body' \<noteq> JNull \<and> get_property body' ''token'' = None \<and>
         get_property body' ''password'' = get_property body ''password'' \<longrightarrow>
           POST env (Some body) tokenStore = POST env (Some body') tokenStore)"
proof (intro conjI allI impI)
  show "POST env (Some (JObj [(''token'', JStr '''')])) tokenStore =
     (\<lparr>status = 400, content = Failed ''Password is required''\<rparr>, tokenStore)"
    by (simp add: POST_no_credentials)
next
  fix body body'
  assume a: "get_property body ''token'' = Some (JStr '''') \<and>
         body' \<noteq> JNull \<and> get_property body' ''token'' = None \<and>
         get_property body' ''password'' = get_property body ''password''"
  then have "get_property body ''token'' = Some (JStr '''')" by simp
  then have "body \<noteq> JNull" by (rule not_null_if_property)
  with a show "POST env (Some body) tokenStore = POST env (Some body') tokenStore"
    by (intro POST_depends_on_fields) simp_all
qed

theorem empty_token_is_absent_witness:
  "get_property (JObj [(''token'', JStr ''''), (''password'', JStr ''wrong'')]) ''token'' =
     Some (JStr '''')
   \<and> JObj [(''password'', JStr ''wrong'')] \<noteq> JNull
   \<and> get_property (JObj [(''password'', JStr ''wrong'')]) ''token'' = None
   \<and> get_property (JObj [(''password'', JStr ''wrong'')]) ''password'' =
       get_property (JObj [(''token'', JStr ''''), (''password'', JStr ''wrong'')]) ''password''
   \<and> POST demo_env (Some (JObj [(''token'', JStr ''''), (''password'', JStr ''wrong'')])) demo_store =
       POST demo_env (Some (JObj [(''password'', JStr ''wrong'')])) demo_store
   \<and> POST demo_env (Some (JObj [(''token'', JStr '''')])) demo_store =
       (\<lparr>status = 400, content = Failed ''Password is required''\<rparr>, demo_store)"
  using empty_token_is_absent [of demo_env demo_store] by simp

subsection \<open>The token branch\<close>

lemma POST_token_branch:
  assumes tk: "get_property body ''token'' = Some (JStr token)" and ne: "token \<noteq> []"
  shows "POST env (Some body) tokenStore =
           (case map_of tokenStore (sha256_hex env token) of
              None \<Rightarrow> (\<lparr>status = 401, content = Failed ''Invalid token''\<rparr>, tokenStore)
            | Some tokenData \<Rightarrow>
                if expiresAt tokenData < date_now env 0 then
                  (\<lparr>status = 401, content = Failed ''Token expired''\<rparr>,
                   AList.delete (sha256_hex env token) tokenStore)
                else
                  (\<lparr>status = 200, content = Token_valid\<rparr>,
                   AList.update (sha256_hex env token)
                     (tokenData\<lparr>expiresAt := date_now env 1 + expiresIn\<rparr>) tokenStore))"
proof -
  have "body \<noteq> JNull" using tk by (rule not_null_if_property)
  then show ?thesis
    using tk ne by (simp add: POST_def POST_try_def Let_def split: option.split)
qed

lemma update_present_keys:
  "map_of al k = Some v \<Longrightarrow> map fst (AList.update k v' al) = map fst al"
  by (simp add: update_keys domI dom_map_of_conv_image_fst [symmetric])

text \<open>
  Claim C2. A token (a non-empty string: what the token branch hashes) whose digest is in
  the store with \<open>expiresAt\<close> not before the clock reading of the check is answered with
  status 200 and \<^verbatim>\<open>{success: true, valid: true}\<close>. The only change to the store is that record's \<open>expiresAt\<close>, which becomes the clock
  reading of the refresh plus 24 hours, whatever \<open>createdAt\<close> is: every other key keeps
  its record, and the keys and their order stay as they were.
\<close>

theorem verify_fresh_token:
  assumes "get_property body ''token'' = Some (JStr token)"
      and "token \<noteq> []"
      and "map_of tokenStore (sha256_hex env token) = Some tokenData"
      and "date_now env 0 \<le> expiresAt tokenData"
  shows "POST env (Some body) tokenStore =
           (\<lparr>status = 200, content = Token_valid\<rparr>,
            AList.update (sha256_hex env token)
              (tokenData\<lparr>expiresAt := date_now env 1 + 24 * 60 * 60 * 1000\<rparr>) tokenStore)
       \<and> map_of (snd (POST env (Some body) tokenStore)) (sha256_hex env token) =
           Some \<lparr>expiresAt = date_now env 1 + 24 * 60 * 60 * 1000,
                 createdAt = createdAt tokenData\<rparr>
       \<and> (\<forall>k. k \<noteq> sha256_hex env token \<longrightarrow>
             map_of (snd (POST env (Some body) tokenStore)) k = map_of tokenStore k)
       \<and> map fst (snd (POST env (Some body) tokenStore)) = map fst tokenStore"
proof -
  have "POST env (Some body) tokenStore =
           (\<lparr>status = 200, content = Token_valid\<rparr>,
            AList.update (sha256_hex env token)
              (tokenData\<lparr>expiresAt := date_now env 1 + 24 * 60 * 60 * 1000\<rparr>) tokenStore)"
    using assms by (simp add: POST_token_branch expiresIn_def)
  then show ?thesis
    using assms(3) by (simp add: update_conv' update_present_keys)
qed

theorem verify_fresh_token_witness:
  "get_property (JObj [(''token'', JStr ''live'')]) ''token'' = Some (JStr ''live'')
   \<and> ''live'' \<noteq> []
   \<and> map_of demo_store (sha256_hex demo_env ''live'') = Some \<lparr>expiresAt = 5000, createdAt = 0\<rparr>
   \<and> date_now demo_env 0 \<le> expiresAt \<lparr>expiresAt = 5000, createdAt = 0\<rparr>
   \<and> POST demo_env (Some (JObj [(''token'', JStr ''live'')])) demo_store =
        (\<lparr>status = 200, content = Token_valid\<rparr>,
         [(''sha256:live'', \<lparr>expiresAt = 86401001, createdAt = 0\<rparr>),
          (''sha256:old'', \<lparr>expiresAt = 500, createdAt = 0\<rparr>)])"
proof -
  have a: "get_property (JObj [(''token'', JStr ''live'')]) ''token'' = Some (JStr ''live'')"
    by simp
  have b: "''live'' \<noteq> []" by simp
  have c: "map_of demo_store (sha256_hex demo_env ''live'') = Some \<lparr>expiresAt = 5000, createdAt = 0\<rparr>"
    by (simp add: demo_store_def demo_env_def)
  have d: "date_now demo_env 0 \<le> expiresAt \<lparr>expiresAt = 5000, createdAt = 0\<rparr>"
    by (simp add: demo_env_def)
  from verify_fresh_token [OF a b c d] a b c d show ?thesis
    by (simp add: demo_store_def demo_env_def)
qed

subsection \<open>The sweep\<close>

lemma delete_filter: "AList.delete k al = filter (\<lambda>e. fst e \<noteq> k) al"
  by (induction al) auto

lemma expired_keys_Nil: "expired_keys now [] = {}"
  by (simp add: expired_keys_def)

lemma expired_keys_Cons:
  "expired_keys now ((k, d) # es) =
     (if expiresAt d < now then insert k (expired_keys now es) else expired_keys now es)"
  by (simp add: expired_keys_def)

lemma sweep_loop:
  "fold (\<lambda>(tokenHash, data) store.
           if expiresAt data < now then AList.delete tokenHash store else store) es s =
   filter (\<lambda>e. fst e \<notin> expired_keys now es) s"
proof (induction es arbitrary: s)
  case Nil
  show ?case by (simp add: expired_keys_Nil)
next
  case (Cons e es)
  obtain k d where e: "e = (k, d)" by (cases e)
  show ?case
  proof (cases "expiresAt d < now")
    case True
    have "filter (\<lambda>e. fst e \<notin> expired_keys now es) (filter (\<lambda>e. fst e \<noteq> k) s) =
          filter (\<lambda>e. fst e \<notin> insert k (expired_keys now es)) s"
      by (simp add: conj_commute)
    then show ?thesis
      using True by (simp add: e Cons.IH delete_filter expired_keys_Cons)
  next
    case False
    then show ?thesis by (simp add: e Cons.IH expired_keys_Cons)
  qed
qed

lemma expired_key_iff:
  assumes "distinct (map fst tokenStore)" and "(k, d) \<in> set tokenStore"
  shows "k \<in> expired_keys now tokenStore \<longleftrightarrow> expiresAt d < now"
proof
  assume "k \<in> expired_keys now tokenStore"
  then obtain d' where d': "(k, d') \<in> set tokenStore" "expiresAt d' < now"
    by (auto simp: expired_keys_def)
  from assms d'(1) have "d = d'" by (rule eq_key_imp_eq_value)
  with d'(2) show "expiresAt d < now" by simp
next
  assume "expiresAt d < now"
  with assms(2) have "(k, d) \<in> set (filter (\<lambda>e. expiresAt (snd e) < now) tokenStore)" by simp
  then have "fst (k, d) \<in> fst ` set (filter (\<lambda>e. expiresAt (snd e) < now) tokenStore)"
    by (rule imageI)
  then show "k \<in> expired_keys now tokenStore" by (simp add: expired_keys_def)
qed

lemma sweep_filter:
  assumes "distinct (map fst tokenStore)"
  shows "sweep now tokenStore =
           filter (\<lambda>(tokenHash, data). \<not> expiresAt data < now) tokenStore"
proof -
  have "filter (\<lambda>e. fst e \<notin> expired_keys now tokenStore) tokenStore =
        filter (\<lambda>(tokenHash, data). \<not> expiresAt data < now) tokenStore"
  proof (rule filter_cong [OF refl])
    fix e assume "e \<in> set tokenStore"
    then have "(fst e, snd e) \<in> set tokenStore" by simp
    from expired_key_iff [OF assms this]
    show "(fst e \<notin> expired_keys now tokenStore) =
          (case e of (tokenHash, data) \<Rightarrow> \<not> expiresAt data < now)"
      by (simp add: case_prod_unfold)
  qed
  then show ?thesis by (simp add: sweep_def sweep_loop)
qed

lemma sweep_keys: "fst ` set (sweep now tokenStore) \<subseteq> fst ` set tokenStore"
  by (auto simp: sweep_def sweep_loop)

lemma distinct_sweep:
  "distinct (map fst tokenStore) \<Longrightarrow> distinct (map fst (sweep now tokenStore))"
  by (simp add: sweep_def sweep_loop distinct_map_filter)

lemma map_of_sweep:
  assumes "distinct (map fst tokenStore)"
  shows "map_of (sweep now tokenStore) k =
           (case map_of tokenStore k of
              None \<Rightarrow> None
            | Some d \<Rightarrow> if expiresAt d < now then None else Some d)"
proof (cases "map_of tokenStore k")
  case None
  then have "k \<notin> fst ` set tokenStore" by (simp add: map_of_eq_None_iff)
  then have "k \<notin> fst ` set (sweep now tokenStore)" using sweep_keys by blast
  then have "map_of (sweep now tokenStore) k = None" by (simp add: map_of_eq_None_iff)
  then show ?thesis by (simp add: None)
next
  case (Some d)
  then have mem: "(k, d) \<in> set tokenStore" by (rule map_of_SomeD)
  show ?thesis
  proof (cases "expiresAt d < now")
    case True
    have "k \<notin> fst ` set (sweep now tokenStore)"
    proof
      assume "k \<in> fst ` set (sweep now tokenStore)"
      then obtain d' where d': "(k, d') \<in> set tokenStore" "\<not> expiresAt d' < now"
        by (auto simp: sweep_filter [OF assms])
      from assms mem d'(1) have "d = d'" by (rule eq_key_imp_eq_value)
      with d'(2) True show False by simp
    qed
    then have "map_of (sweep now tokenStore) k = None" by (simp add: map_of_eq_None_iff)
    then show ?thesis by (simp add: Some True)
  next
    case False
    have "distinct (map fst (sweep now tokenStore))"
      using assms by (rule distinct_sweep)
    moreover have "(k, d) \<in> set (sweep now tokenStore)"
      using mem False by (simp add: sweep_filter [OF assms])
    ultimately have "map_of (sweep now tokenStore) k = Some d" by (rule map_of_is_SomeI)
    then show ?thesis by (simp add: Some False)
  qed
qed

subsection \<open>Rejected tokens\<close>

text \<open>
  Claim C3. A (non-empty, string) token whose digest is not in the store is answered with
  status 401 and \<^verbatim>\<open>error: 'Invalid token'\<close>, the store untouched. One whose record has
  \<open>expiresAt\<close> before the clock reading of the check is answered with status 401 and
  \<^verbatim>\<open>error: 'Token expired'\<close>, and that record, and no other, is deleted. Whether or not
  a sweep, at any time, ran before the request makes no difference to the rejection: the
  answer is 401 and the digest is not in the store afterwards.
\<close>

theorem verify_rejects_missing_or_expired:
  assumes "get_property body ''token'' = Some (JStr token)"
      and "token \<noteq> []"
  shows "(map_of tokenStore (sha256_hex env token) = None \<longrightarrow>
            POST env (Some body) tokenStore =
              (\<lparr>status = 401, content = Failed ''Invalid token''\<rparr>, tokenStore))
       \<and> (\<forall>tokenData.
            map_of tokenStore (sha256_hex env token) = Some tokenData \<and>
            expiresAt tokenData < date_now env 0 \<longrightarrow>
              POST env (Some body) tokenStore =
                (\<lparr>status = 401, content = Failed ''Token expired''\<rparr>,
                 AList.delete (sha256_hex env token) tokenStore)
            \<and> map_of (snd (POST env (Some body) tokenStore)) (sha256_hex env token) = None
            \<and> (\<forall>k. k \<noteq> sha256_hex env token \<longrightarrow>
                  map_of (snd (POST env (Some body) tokenStore)) k = map_of tokenStore k)
            \<and> (distinct (map fst tokenStore) \<longrightarrow>
                  (\<forall>now. status (fst (POST env (Some body) (sweep now tokenStore))) = 401
                       \<and> content (fst (POST env (Some body) (sweep now tokenStore)))
                            \<in> {Failed ''Invalid token'', Failed ''Token expired''}
                       \<and> map_of (snd (POST env (Some body) (sweep now tokenStore)))
                            (sha256_hex env token) = None)))"
proof (intro conjI impI allI)
  assume "map_of tokenStore (sha256_hex env token) = None"
  then show "POST env (Some body) tokenStore =
      (\<lparr>status = 401, content = Failed ''Invalid token''\<rparr>, tokenStore)"
    using assms by (simp add: POST_token_branch)
next
  fix tokenData
  assume a: "map_of tokenStore (sha256_hex env token) = Some tokenData \<and>
             expiresAt tokenData < date_now env 0"
  then show eq: "POST env (Some body) tokenStore =
      (\<lparr>status = 401, content = Failed ''Token expired''\<rparr>,
       AList.delete (sha256_hex env token) tokenStore)"
    using assms by (simp add: POST_token_branch)
  show "map_of (snd (POST env (Some body) tokenStore)) (sha256_hex env token) = None"
    by (simp add: eq delete_conv')
  show "map_of (snd (POST env (Some body) tokenStore)) k = map_of tokenStore k"
    if "k \<noteq> sha256_hex env token" for k
    using that by (simp add: eq delete_conv')
  fix now
  assume d: "distinct (map fst tokenStore)"
  have cases: "map_of (sweep now tokenStore) (sha256_hex env token) = None
      \<or> map_of (sweep now tokenStore) (sha256_hex env token) = Some tokenData"
    using a by (simp add: map_of_sweep [OF d])
  have post: "POST env (Some body) (sweep now tokenStore) =
      (case map_of (sweep now tokenStore) (sha256_hex env token) of
         None \<Rightarrow> (\<lparr>status = 401, content = Failed ''Invalid token''\<rparr>, sweep now tokenStore)
       | Some tokenData \<Rightarrow>
           if expiresAt tokenData < date_now env 0 then
             (\<lparr>status = 401, content = Failed ''Token expired''\<rparr>,
              AList.delete (sha256_hex env token) (sweep now tokenStore))
           else
             (\<lparr>status = 200, content = Token_valid\<rparr>,
              AList.update (sha256_hex env token)
                (tokenData\<lparr>expiresAt := date_now env 1 + expiresIn\<rparr>) (sweep now tokenStore)))"
    using assms by (rule POST_token_branch)
  from cases a show "status (fst (POST env (Some body) (sweep now tokenStore))) = 401"
    unfolding post by auto
  from cases a show "content (fst (POST env (Some body) (sweep now tokenStore)))
      \<in> {Failed ''Invalid token'', Failed ''Token expired''}"
    unfolding post by auto
  from cases a show "map_of (snd (POST env (Some body) (sweep now tokenStore)))
      (sha256_hex env token) = None"
    unfolding post by (auto simp: delete_conv')
qed

theorem verify_rejects_missing_or_expired_witness:
  "get_property (JObj [(''token'', JStr ''old'')]) ''token'' = Some (JStr ''old'')
   \<and> ''old'' \<noteq> []
   \<and> map_of demo_store (sha256_hex demo_env ''old'') = Some \<lparr>expiresAt = 500, createdAt = 0\<rparr>
   \<and> expiresAt \<lparr>expiresAt = 500, createdAt = 0\<rparr> < date_now demo_env 0
   \<and> distinct (map fst demo_store)
   \<and> POST demo_env (Some (JObj [(''token'', JStr ''old'')])) demo_store =
        (\<lparr>status = 401, content = Failed ''Token expired''\<rparr>,
         [(''sha256:live'', \<lparr>expiresAt = 5000, createdAt = 0\<rparr>)])
   \<and> status (fst (POST demo_env (Some (JObj [(''token'', JStr ''old'')])) (sweep 1000 demo_store))) = 401
   \<and> map_of [] (sha256_hex demo_env ''old'') = (None :: token_data option)
   \<and> POST demo_env (Some (JObj [(''token'', JStr ''old'')])) [] =
        (\<lparr>status = 401, content = Failed ''Invalid token''\<rparr>, [])"
proof -
  have a: "get_property (JObj [(''token'', JStr ''old'')]) ''token'' = Some (JStr ''old'')"
    by simp
  have b: "''old'' \<noteq> []" by simp
  have c: "map_of demo_store (sha256_hex demo_env ''old'') = Some \<lparr>expiresAt = 500, createdAt = 0\<rparr>"
    by (simp add: demo_store_def demo_env_def)
  have e: "expiresAt \<lparr>expiresAt = 500, createdAt = 0\<rparr> < date_now demo_env 0"
    by (simp add: demo_env_def)
  have d: "distinct (map fst demo_store)" by (simp add: demo_store_def)
  have n: "map_of [] (sha256_hex demo_env ''old'') = (None :: token_data option)" by simp
  note t1 = verify_rejects_missing_or_expired [OF a b, of demo_store demo_env]
  note t2 = verify_rejects_missing_or_expired [OF a b, of "[]" demo_env]
  from t1 c e d have "POST demo_env (Some (JObj [(''token'', JStr ''old'')])) demo_store =
        (\<lparr>status = 401, content = Failed ''Token expired''\<rparr>,
         AList.delete (sha256_hex demo_env ''old'') demo_store)
     \<and> status (fst (POST demo_env (Some (JObj [(''token'', JStr ''old'')])) (sweep 1000 demo_store))) = 401"
    by blast
  moreover from t2 n have "POST demo_env (Some (JObj [(''token'', JStr ''old'')])) [] =
        (\<lparr>status = 401, content = Failed ''Invalid token''\<rparr>, [])"
    by blast
  ultimately show ?thesis
    using a b c e d n by (simp add: demo_store_def demo_env_def)
qed

subsection \<open>What one sweep removes\<close>

text \<open>
  Claim C6. One run of the sweep at time \<open>now\<close> leaves exactly the records with
  \<open>expiresAt\<close> not before \<open>now\<close>, in their order: of a store with N expired and M live
  records, the M live ones. No verification is involved.
\<close>

theorem sweep_removes_exactly_expired:
  assumes "distinct (map fst tokenStore)"
  shows "sweep now tokenStore = filter (\<lambda>(tokenHash, data). \<not> expiresAt data < now) tokenStore
       \<and> set (sweep now tokenStore) =
           set tokenStore - {e \<in> set tokenStore. expiresAt (snd e) < now}
       \<and> length (sweep now tokenStore) =
           length (filter (\<lambda>(tokenHash, data). \<not> expiresAt data < now) tokenStore)
       \<and> length (filter (\<lambda>(tokenHash, data). expiresAt data < now) tokenStore)
           + length (sweep now tokenStore) = length tokenStore"
proof -
  have eq: "sweep now tokenStore =
      filter (\<lambda>(tokenHash, data). \<not> expiresAt data < now) tokenStore"
    using assms by (rule sweep_filter)
  have len: "length (filter (\<lambda>(tokenHash, data). expiresAt data < now) tokenStore)
      + length (filter (\<lambda>(tokenHash, data). \<not> expiresAt data < now) tokenStore) = length tokenStore"
    using sum_length_filter_compl [of "\<lambda>(tokenHash, data). expiresAt data < now" tokenStore]
    by (simp add: case_prod_unfold)
  have st: "set (filter (\<lambda>(tokenHash, data). \<not> expiresAt data < now) tokenStore) =
      set tokenStore - {e \<in> set tokenStore. expiresAt (snd e) < now}"
    by (auto simp: case_prod_unfold)
  show ?thesis unfolding eq using len st by simp
qed

theorem sweep_removes_exactly_expired_witness:
  "distinct (map fst demo_store)
   \<and> sweep 1000 demo_store = [(''sha256:live'', \<lparr>expiresAt = 5000, createdAt = 0\<rparr>)]
   \<and> length (filter (\<lambda>(tokenHash, data). expiresAt data < 1000) demo_store) = 1
   \<and> length (sweep 1000 demo_store) = 1"
proof -
  have d: "distinct (map fst demo_store)" by (simp add: demo_store_def)
  from sweep_removes_exactly_expired [OF d, of 1000] d show ?thesis
    by (simp add: demo_store_def)
qed

subsection \<open>Every outcome of a request\<close>

lemma POST_not_json:
  "POST env None tokenStore =
     (\<lparr>status = 400, content = Failed ''Invalid request''\<rparr>, tokenStore)"
  by (simp add: POST_def POST_try_def)

lemma POST_null:
  "POST env (Some JNull) tokenStore =
     (\<lparr>status = 400, content = Failed ''Invalid request''\<rparr>, tokenStore)"
  by (simp add: POST_def POST_try_def)

lemma createTokenHash_not_string:
  "\<forall>s. v \<noteq> Some (JStr s) \<Longrightarrow> createTokenHash env v = Inl TypeError"
  by (cases "(env, v)" rule: createTokenHash.cases) simp_all

lemma POST_token_not_string:
  assumes "truthy (get_property body ''token'')"
      and "\<forall>s. get_property body ''token'' \<noteq> Some (JStr s)"
  shows "POST env (Some body) tokenStore =
           (\<lparr>status = 400, content = Failed ''Invalid request''\<rparr>, tokenStore)"
proof -
  have "body \<noteq> JNull" using assms(1) by (rule not_null_if_truthy)
  moreover have "createTokenHash env (get_property body ''token'') = Inl TypeError"
    using assms(2) by (rule createTokenHash_not_string)
  ultimately show ?thesis
    using assms(1) by (simp add: POST_def POST_try_def Let_def)
qed

lemma POST_store_cases:
  "snd (POST env req tokenStore) = tokenStore
   \<or> (\<exists>h. snd (POST env req tokenStore) = AList.delete h tokenStore)
   \<or> (\<exists>h d d'. map_of tokenStore h = Some d \<and>
          snd (POST env req tokenStore) = AList.update h d' tokenStore)
   \<or> (\<exists>d. content (fst (POST env req tokenStore)) = Token_issued (generateToken env) \<and>
          snd (POST env req tokenStore) =
            AList.update (sha256_hex env (generateToken env)) d tokenStore)"
proof (cases req)
  case None
  then show ?thesis by (simp add: POST_not_json)
next
  case (Some body)
  show ?thesis
  proof (cases "body = JNull")
    case True
    then show ?thesis by (simp add: Some POST_null)
  next
    case notnull: False
    show ?thesis
    proof (cases "truthy (get_property body ''token'')")
      case True
      show ?thesis
      proof (cases "\<exists>s. get_property body ''token'' = Some (JStr s)")
        case False
        with True show ?thesis by (simp add: Some POST_token_not_string)
      next
        case str: True
        then obtain s where s: "get_property body ''token'' = Some (JStr s)" by blast
        with True have ne: "s \<noteq> []" by simp
        show ?thesis
          unfolding Some POST_token_branch [OF s ne]
          by (cases "map_of tokenStore (sha256_hex env s)") auto
      qed
    next
      case notoken: False
      show ?thesis
      proof (cases "truthy (get_property body ''password'')")
        case False
        with notnull notoken show ?thesis by (simp add: Some POST_no_credentials)
      next
        case True
        show ?thesis
        proof (cases "get_property body ''password'' = Some (JStr (correctPassword env))")
          case False
          with True notoken show ?thesis by (simp add: Some POST_wrong_password)
        next
          case True
          have "content (fst (POST env (Some body) tokenStore)) = Token_issued (generateToken env)
              \<and> snd (POST env (Some body) tokenStore) =
                  AList.update (sha256_hex env (generateToken env))
                    \<lparr>expiresAt = date_now env 0 + expiresIn, createdAt = date_now env 1\<rparr>
                    tokenStore"
            by (simp add: POST_issue [OF True notoken])
          then show ?thesis unfolding Some by blast
        qed
      qed
    qed
  qed
qed

lemma keys_POST:
  "fst ` set (snd (POST env req tokenStore)) \<subseteq>
     fst ` set tokenStore \<union> sha256_hex env ` issued_tokens (fst (POST env req tokenStore))"
proof -
  consider
    (same) "snd (POST env req tokenStore) = tokenStore"
  | (del) h where "snd (POST env req tokenStore) = AList.delete h tokenStore"
  | (upd) h d d' where "map_of tokenStore h = Some d"
      "snd (POST env req tokenStore) = AList.update h d' tokenStore"
  | (new) d where "content (fst (POST env req tokenStore)) = Token_issued (generateToken env)"
      "snd (POST env req tokenStore) =
         AList.update (sha256_hex env (generateToken env)) d tokenStore"
    using POST_store_cases [of env req tokenStore] by blast
  then show ?thesis
  proof cases
    case same
    then show ?thesis by auto
  next
    case del
    then show ?thesis using dom_delete_subset [of h tokenStore] by auto
  next
    case upd
    from upd(1) have "h \<in> fst ` set tokenStore"
      by (metis domI dom_map_of_conv_image_fst)
    then show ?thesis unfolding upd(2) by (auto simp: dom_update)
  next
    case new
    show ?thesis unfolding new(2) by (auto simp: dom_update issued_tokens_def new(1))
  qed
qed

lemma POST_preserves_keys_are_digests:
  assumes "keys_are_digests (sha256_hex env) issued tokenStore"
  shows "keys_are_digests (sha256_hex env)
           (issued \<union> issued_tokens (fst (POST env req tokenStore)))
           (snd (POST env req tokenStore))"
  using assms keys_POST [of env req tokenStore]
  unfolding keys_are_digests_def by blast

lemma sweep_preserves_keys_are_digests:
  assumes "keys_are_digests sha issued tokenStore"
  shows "keys_are_digests sha issued (sweep now tokenStore)"
  using assms sweep_keys [of now tokenStore]
  unfolding keys_are_digests_def by blast

lemma init_keys_are_digests: "keys_are_digests sha {} tokenStore_init"
  by (simp add: keys_are_digests_def tokenStore_init_def)

lemma reachable_keys_are_digests:
  "reachable sha tokenStore issued \<Longrightarrow> keys_are_digests sha issued tokenStore"
proof (induction rule: reachable.induct)
  case start
  show ?case by (rule init_keys_are_digests)
next
  case (request tokenStore issued env req r tokenStore')
  from request.IH request.hyps(2)
  have "keys_are_digests (sha256_hex env) issued tokenStore" by simp
  then have "keys_are_digests (sha256_hex env)
      (issued \<union> issued_tokens (fst (POST env req tokenStore))) (snd (POST env req tokenStore))"
    by (rule POST_preserves_keys_are_digests)
  then show ?case using request.hyps(2,3) by simp
next
  case (sweeping tokenStore issued now)
  then show ?case by (simp add: sweep_preserves_keys_are_digests)
qed

lemma POST_preserves_distinct:
  "distinct (map fst tokenStore) \<Longrightarrow> distinct (map fst (snd (POST env req tokenStore)))"
  using POST_store_cases [of env req tokenStore]
  by (auto simp: distinct_update distinct_delete)

text \<open>A key occurs once in every reachable store, as in a JavaScript Map.\<close>

lemma reachable_distinct:
  "reachable sha tokenStore issued \<Longrightarrow> distinct (map fst tokenStore)"
proof (induction rule: reachable.induct)
  case start
  show ?case by (simp add: tokenStore_init_def)
next
  case (request tokenStore issued env req r tokenStore')
  from request.IH have "distinct (map fst (snd (POST env req tokenStore)))"
    by (rule POST_preserves_distinct)
  then show ?case using request.hyps(3) by simp
next
  case (sweeping tokenStore issued now)
  then show ?case by (simp add: distinct_sweep)
qed

text \<open>
  Claim C5. That every key of the store is the digest of a token handed out holds of the
  empty store and is kept by every request (whatever it carries: a password, a token,
  neither, or no JSON at all) and by every sweep; so it holds in every reachable state.
  A record holds two timestamps and nothing else. The key written on issue is the digest,
  so a token handed out is a key only if it is itself the digest of a token handed out,
  which is a matter of the hash function.
\<close>

theorem store_keys_are_digests_of_issued_tokens:
  "keys_are_digests sha {} tokenStore_init
   \<and> (keys_are_digests (sha256_hex env) issued tokenStore \<longrightarrow>
        keys_are_digests (sha256_hex env)
          (issued \<union> issued_tokens (fst (POST env req tokenStore)))
          (snd (POST env req tokenStore)))
   \<and> (keys_are_digests sha issued tokenStore \<longrightarrow>
        keys_are_digests sha issued (sweep now tokenStore))
   \<and> (reachable sha tokenStore issued \<longrightarrow>
        (\<forall>k \<in> fst ` set tokenStore. \<exists>t \<in> issued. k = sha t)
        \<and> ((\<forall>t \<in> issued. t \<notin> sha ` issued) \<longrightarrow> (\<forall>t \<in> issued. t \<notin> fst ` set tokenStore)))"
proof (intro conjI impI)
  show "keys_are_digests sha {} tokenStore_init" by (rule init_keys_are_digests)
next
  assume "keys_are_digests (sha256_hex env) issued tokenStore"
  then show "keys_are_digests (sha256_hex env)
      (issued \<union> issued_tokens (fst (POST env req tokenStore))) (snd (POST env req tokenStore))"
    by (rule POST_preserves_keys_are_digests)
next
  assume "keys_are_digests sha issued tokenStore"
  then show "keys_are_digests sha issued (sweep now tokenStore)"
    by (rule sweep_preserves_keys_are_digests)
next
  assume "reachable sha tokenStore issued"
  then have k: "fst ` set tokenStore \<subseteq> sha ` issued"
    using reachable_keys_are_digests [of sha tokenStore issued]
    by (simp add: keys_are_digests_def)
  then show "\<forall>k \<in> fst ` set tokenStore. \<exists>t \<in> issued. k = sha t" by blast
  assume "\<forall>t \<in> issued. t \<notin> sha ` issued"
  with k show "\<forall>t \<in> issued. t \<notin> fst ` set tokenStore" by blast
qed


lemma POST_demo_issue:
  "POST demo_env (Some demo_issue) tokenStore_init =
     (\<lparr>status = 200,
       content = Token_issued ''fa01080f161d242b323940474e555c636a71787f868d949ba2a9b0b7bec5ccd3''\<rparr>,
      [(''sha256:fa01080f161d242b323940474e555c636a71787f868d949ba2a9b0b7bec5ccd3'',
        \<lparr>expiresAt = 86401000, createdAt = 1001\<rparr>)])"
proof -
  have pw: "get_property demo_issue ''password'' = Some (JStr (correctPassword demo_env))"
    by (simp add: demo_issue_def correctPassword_def demo_env_def)
  have tk: "\<not> truthy (get_property demo_issue ''token'')"
    by (simp add: demo_issue_def)
  show ?thesis
    unfolding POST_issue [OF pw tk] generateToken_demo
    by (simp add: demo_env_def expiresIn_def tokenStore_init_def)
qed

lemma reachable_demo:
  "reachable (sha256_hex demo_env)
     [(''sha256:fa01080f161d242b323940474e555c636a71787f868d949ba2a9b0b7bec5ccd3'',
       \<lparr>expiresAt = 86401000, createdAt = 1001\<rparr>)]
     {''fa01080f161d242b323940474e555c636a71787f868d949ba2a9b0b7bec5ccd3''}"
  using reachable.request [OF reachable.start refl POST_demo_issue]
  by (simp add: issued_tokens_def)

theorem store_keys_are_digests_of_issued_tokens_witness:
  "keys_are_digests (sha256_hex demo_env) {''live'', ''old''} demo_store
   \<and> keys_are_digests (sha256_hex demo_env)
        ({''live'', ''old''} \<union> issued_tokens (fst (POST demo_env (Some demo_issue) demo_store)))
        (snd (POST demo_env (Some demo_issue) demo_store))
   \<and> keys_are_digests (sha256_hex demo_env) {''live'', ''old''} (sweep 1000 demo_store)
   \<and> reachable (sha256_hex demo_env)
        [(''sha256:fa01080f161d242b323940474e555c636a71787f868d949ba2a9b0b7bec5ccd3'',
          \<lparr>expiresAt = 86401000, createdAt = 1001\<rparr>)]
        {''fa01080f161d242b323940474e555c636a71787f868d949ba2a9b0b7bec5ccd3''}
   \<and> ''fa01080f161d242b323940474e555c636a71787f868d949ba2a9b0b7bec5ccd3'' \<notin>
        sha256_hex demo_env ` {''fa01080f161d242b323940474e555c636a71787f868d949ba2a9b0b7bec5ccd3''}
   \<and> ''fa01080f161d242b323940474e555c636a71787f868d949ba2a9b0b7bec5ccd3'' \<notin>
        fst ` set [(''sha256:fa01080f161d242b323940474e555c636a71787f868d949ba2a9b0b7bec5ccd3'',
                    \<lparr>expiresAt = 86401000, createdAt = 1001\<rparr>)]"
proof -
  have k: "keys_are_digests (sha256_hex demo_env) {''live'', ''old''} demo_store"
    by (simp add: keys_are_digests_def demo_env_def demo_store_def)
  have f: "''fa01080f161d242b323940474e555c636a71787f868d949ba2a9b0b7bec5ccd3'' \<notin>
        sha256_hex demo_env ` {''fa01080f161d242b323940474e555c636a71787f868d949ba2a9b0b7bec5ccd3''}"
    by (simp add: demo_env_def)
  note t1 = store_keys_are_digests_of_issued_tokens
    [where sha = "sha256_hex demo_env" and env = demo_env and issued = "{''live'', ''old''}"
       and tokenStore = demo_store and req = "Some demo_issue" and now = 1000]
  note t2 = store_keys_are_digests_of_issued_tokens
    [where sha = "sha256_hex demo_env" and env = demo_env
       and issued = "{''fa01080f161d242b323940474e555c636a71787f868d949ba2a9b0b7bec5ccd3''}"
       and tokenStore = "[(''sha256:fa01080f161d242b323940474e555c636a71787f868d949ba2a9b0b7bec5ccd3'',
          \<lparr>expiresAt = 86401000, createdAt = 1001\<rparr>)]"]
  from t1 k have a: "keys_are_digests (sha256_hex demo_env)
        ({''live'', ''old''} \<union> issued_tokens (fst (POST demo_env (Some demo_issue) demo_store)))
        (snd (POST demo_env (Some demo_issue) demo_store))
      \<and> keys_are_digests (sha256_hex demo_env) {''live'', ''old''} (sweep 1000 demo_store)"
    by blast
  from t2 reachable_demo f have b:
    "''fa01080f161d242b323940474e555c636a71787f868d949ba2a9b0b7bec5ccd3'' \<notin>
        fst ` set [(''sha256:fa01080f161d242b323940474e555c636a71787f868d949ba2a9b0b7bec5ccd3'',
                    \<lparr>expiresAt = 86401000, createdAt = 1001\<rparr>)]"
    by blast
  from k a reachable_demo f b show ?thesis by blast
qed

subsection \<open>Error texts\<close>

text \<open>
  Claim C8, as stated: the three rejections do not carry the same error description. On
  the sample store, a wrong password, an unknown token and an expired token are answered
  with three different texts.
\<close>

theorem rejection_texts_differ_counterexample:
  "fst (POST demo_env (Some (JObj [(''password'', JStr ''wrong'')])) demo_store) =
     \<lparr>status = 401, content = Failed ''Incorrect password''\<rparr>
   \<and> fst (POST demo_env (Some (JObj [(''token'', JStr ''unknown'')])) demo_store) =
     \<lparr>status = 401, content = Failed ''Invalid token''\<rparr>
   \<and> fst (POST demo_env (Some (JObj [(''token'', JStr ''old'')])) demo_store) =
     \<lparr>status = 401, content = Failed ''Token expired''\<rparr>
   \<and> ''Incorrect password'' \<noteq> ''Invalid token''
   \<and> ''Invalid token'' \<noteq> ''Token expired''
   \<and> ''Incorrect password'' \<noteq> ''Token expired''"
  by (simp add: demo_env_def demo_store_def correctPassword_def POST_def POST_try_def Let_def)

lemma authenticate_ignores_error_text:
  "authenticate cfg window (Fetch_data (Failed e)) pw s =
   authenticate cfg window (Fetch_data (Failed e')) pw s"
  by (simp add: authenticate_def)

text \<open>
  Claim C8, amended. The three rejections share the status 401 and \<^verbatim>\<open>success: false\<close>;
  the error text names the check that failed: \<^verbatim>\<open>'Incorrect password'\<close>,
  \<^verbatim>\<open>'Invalid token'\<close> or \<^verbatim>\<open>'Token expired'\<close>. The session manager does not read the text:
  \<^verbatim>\<open>authenticate\<close> does the same on every failure reply.
\<close>

theorem rejections_share_status_and_name_the_check:
  "(truthy (get_property body ''password'') \<and>
    get_property body ''password'' \<noteq> Some (JStr (correctPassword env)) \<and>
    \<not> truthy (get_property body ''token'') \<longrightarrow>
      fst (POST env (Some body) tokenStore) =
        \<lparr>status = 401, content = Failed ''Incorrect password''\<rparr>)
   \<and> (get_property body ''token'' = Some (JStr token) \<and> token \<noteq> [] \<and>
       map_of tokenStore (sha256_hex env token) = None \<longrightarrow>
      fst (POST env (Some body) tokenStore) =
        \<lparr>status = 401, content = Failed ''Invalid token''\<rparr>)
   \<and> (get_property body ''token'' = Some (JStr token) \<and> token \<noteq> [] \<and>
       map_of tokenStore (sha256_hex env token) = Some tokenData \<and>
       expiresAt tokenData < date_now env 0 \<longrightarrow>
      fst (POST env (Some body) tokenStore) =
        \<lparr>status = 401, content = Failed ''Token expired''\<rparr>)
   \<and> authenticate cfg window (Fetch_data (Failed e)) pw s =
       authenticate cfg window (Fetch_data (Failed e')) pw s"
  by (simp add: POST_wrong_password POST_token_branch authenticate_ignores_error_text)

theorem rejections_share_status_and_name_the_check_witness:
  "truthy (get_property (JObj [(''password'', JStr ''wrong'')]) ''password'')
   \<and> get_property (JObj [(''password'', JStr ''wrong'')]) ''password'' \<noteq>
        Some (JStr (correctPassword demo_env))
   \<and> \<not> truthy (get_property (JObj [(''password'', JStr ''wrong'')]) ''token'')
   \<and> fst (POST demo_env (Some (JObj [(''password'', JStr ''wrong'')])) demo_store) =
        \<lparr>status = 401, content = Failed ''Incorrect password''\<rparr>
   \<and> get_property (JObj [(''token'', JStr ''unknown'')]) ''token'' = Some (JStr ''unknown'')
   \<and> map_of demo_store (sha256_hex demo_env ''unknown'') = None
   \<and> fst (POST demo_env (Some (JObj [(''token'', JStr ''unknown'')])) demo_store) =
        \<lparr>status = 401, content = Failed ''Invalid token''\<rparr>
   \<and> get_property (JObj [(''token'', JStr ''old'')]) ''token'' = Some (JStr ''old'')
   \<and> map_of demo_store (sha256_hex demo_env ''old'') = Some \<lparr>expiresAt = 500, createdAt = 0\<rparr>
   \<and> expiresAt \<lparr>expiresAt = 500, createdAt = 0\<rparr> < date_now demo_env 0
   \<and> fst (POST demo_env (Some (JObj [(''token'', JStr ''old'')])) demo_store) =
        \<lparr>status = 401, content = Failed ''Token expired''\<rparr>"
proof -
  have a: "truthy (get_property (JObj [(''password'', JStr ''wrong'')]) ''password'')
     \<and> get_property (JObj [(''password'', JStr ''wrong'')]) ''password'' \<noteq>
        Some (JStr (correctPassword demo_env))
     \<and> \<not> truthy (get_property (JObj [(''password'', JStr ''wrong'')]) ''token'')"
    by (simp add: correctPassword_def demo_env_def)
  have b: "get_property (JObj [(''token'', JStr ''unknown'')]) ''token'' = Some (JStr ''unknown'')
     \<and> ''unknown'' \<noteq> []
     \<and> map_of demo_store (sha256_hex demo_env ''unknown'') = None"
    by (simp add: demo_store_def demo_env_def)
  have c: "get_property (JObj [(''token'', JStr ''old'')]) ''token'' = Some (JStr ''old'')
     \<and> ''old'' \<noteq> []
     \<and> map_of demo_store (sha256_hex demo_env ''old'') = Some \<lparr>expiresAt = 500, createdAt = 0\<rparr>
     \<and> expiresAt \<lparr>expiresAt = 500, createdAt = 0\<rparr> < date_now demo_env 0"
    by (simp add: demo_store_def demo_env_def)
  note t = rejections_share_status_and_name_the_check
  from a t [where body = "JObj [(''password'', JStr ''wrong'')]" and env = demo_env
              and tokenStore = demo_store]
  have a': "fst (POST demo_env (Some (JObj [(''password'', JStr ''wrong'')])) demo_store) =
        \<lparr>status = 401, content = Failed ''Incorrect password''\<rparr>"
    by blast
  from b t [where body = "JObj [(''token'', JStr ''unknown'')]" and env = demo_env
              and tokenStore = demo_store and token = "''unknown''"]
  have b': "fst (POST demo_env (Some (JObj [(''token'', JStr ''unknown'')])) demo_store) =
        \<lparr>status = 401, content = Failed ''Invalid token''\<rparr>"
    by blast
  from c t [where body = "JObj [(''token'', JStr ''old'')]" and env = demo_env
              and tokenStore = demo_store and token = "''old''"
              and tokenData = "\<lparr>expiresAt = 500, createdAt = 0\<rparr>"]
  have c': "fst (POST demo_env (Some (JObj [(''token'', JStr ''old'')])) demo_store) =
        \<lparr>status = 401, content = Failed ''Token expired''\<rparr>"
    by blast
  from a b c a' b' c' show ?thesis by blast
qed

section \<open>Properties of the session manager\<close>

lemma invoke_log: "invoke configured c s = s\<lparr>invoked := invoked s @ (if configured then [c] else [])\<rparr>"
  by (simp add: invoke_def)

text \<open>
  Claim C9. In local-secret mode (\<^verbatim>\<open>config.password\<close> a non-empty string), submitting the
  secret returns true, writes \<^verbatim>\<open>'authenticated'\<close> under the storage key when persistence
  is on (and a window exists), sets \<open>isAuthenticated\<close>, and adds exactly one invocation of
  the success callback, when one is configured, and none of the error callback.
  Submitting anything else returns false and adds exactly one invocation of the error
  callback, when one is configured; \<open>isAuthenticated\<close> and the storage stay as they were.
  The reply of the route plays no role in this mode.
\<close>

theorem authenticate_local_secret:
  assumes "password cfg = Some secret" and "secret \<noteq> []"
  shows "authenticate cfg window reply secret s =
           (True,
            s\<lparr>localStorage :=
                 (if persistAuth_of cfg \<and> window
                  then (localStorage s)(storageKey_of cfg \<mapsto> ''authenticated'')
                  else localStorage s),
               isAuthenticated := True,
               invoked := invoked s @ (if onSuccess cfg then [OnSuccess] else [])\<rparr>)
       \<and> (p \<noteq> secret \<longrightarrow>
            authenticate cfg window reply p s =
              (False, s\<lparr>invoked := invoked s @ (if onError cfg then [OnError] else [])\<rparr>)
            \<and> isAuthenticated (snd (authenticate cfg window reply p s)) = isAuthenticated s
            \<and> localStorage (snd (authenticate cfg window reply p s)) = localStorage s)"
  using assms by (auto simp: authenticate_def invoke_log)

theorem authenticate_local_secret_witness:
  "password demo_config = Some ''abc'' \<and> ''abc'' \<noteq> [] \<and> ''xyz'' \<noteq> ''abc''
   \<and> authenticate demo_config True Fetch_failed ''abc'' demo_session =
       (True, \<lparr>isAuthenticated = True,
               localStorage = [''password-protect-auth'' \<mapsto> ''authenticated''],
               invoked = [OnSuccess]\<rparr>)
   \<and> authenticate demo_config True Fetch_failed ''xyz'' demo_session =
       (False, \<lparr>isAuthenticated = False, localStorage = Map.empty, invoked = [OnError]\<rparr>)"
proof -
  have a: "password demo_config = Some ''abc''" by (simp add: demo_config_def)
  have b: "''abc'' \<noteq> []" by simp
  have c: "''xyz'' \<noteq> ''abc''" by simp
  from authenticate_local_secret [OF a b, of True Fetch_failed demo_session "''xyz''"] a b c
  show ?thesis
    by (simp add: demo_config_def demo_session_def persistAuth_of_def storageKey_of_def)
qed

end
